theory Spec2Isabelle
  imports Main
begin

section \<open>The toolkit's objects\<close>

text \<open>
  The shell in \<^verbatim>\<open>linux/my_application.cc\<close> is a sequence of calls into GLib, GTK and
  the Flutter embedder. Those calls mutate objects that live on the C heap, so the model
  is an explicit store: a pointer is \<open>NULL\<close> or an address, the heap is the list of all
  cells ever allocated (an address is an index into it, so an address is never handed out
  twice), and a cell is either a live object or \<open>None\<close> once the object has been finalised.
  Next to the heap the world keeps the log of the toolkit calls made so far, in order.
\<close>

datatype ptr = NULL | Addr nat

text \<open>The flags of a \<open>GApplication\<close> (the enumeration \<open>GApplicationFlags\<close> of GIO); a flags
  value of the C code is a set of them, and \<open>G_APPLICATION_FLAGS_NONE\<close> is the empty set.\<close>

datatype GApplicationFlags =
    G_APPLICATION_IS_SERVICE
  | G_APPLICATION_IS_LAUNCHER
  | G_APPLICATION_HANDLES_OPEN
  | G_APPLICATION_HANDLES_COMMAND_LINE
  | G_APPLICATION_SEND_ENVIRONMENT
  | G_APPLICATION_NON_UNIQUE
  | G_APPLICATION_CAN_OVERRIDE_APP_ID
  | G_APPLICATION_ALLOW_REPLACEMENT
  | G_APPLICATION_REPLACE

record MyApplication =
  application_id :: "string option"
  flags :: "GApplicationFlags set"

record GtkWindow =
  window_application :: ptr
  window_titlebar :: ptr
  window_title :: "string option"
  default_width :: int
  default_height :: int
  window_visible :: bool

record GtkHeaderBar =
  header_title :: "string option"
  show_title_buttons :: bool
  header_visible :: bool
  title_notify :: "ptr list"

datatype gtype_instance =
    Application MyApplication
  | Window GtkWindow
  | HeaderBar GtkHeaderBar
  | DartProject

record gobject =
  ref_count :: nat
  inst :: gtype_instance

type_synonym heap = "gobject option list"

text \<open>The registered types the shell instantiates, and the values a construction
  property can carry.\<close>

datatype GType =
    MY_TYPE_APPLICATION
  | GTK_TYPE_APPLICATION_WINDOW
  | GTK_TYPE_HEADER_BAR
  | FL_TYPE_DART_PROJECT

datatype gvalue =
    String_value string
  | Flags_value "GApplicationFlags set"
  | Object_value ptr

text \<open>The calls of the toolkit that the shell makes; a constructor's last argument is
  the pointer it returned.\<close>

datatype call =
    Call_g_object_new GType "(string \<times> gvalue) list" ptr
  | Call_gtk_application_window_new ptr ptr
  | Call_gtk_header_bar_new ptr
  | Call_gtk_widget_show ptr
  | Call_gtk_header_bar_set_title ptr string
  | Call_gtk_header_bar_set_show_title_buttons ptr bool
  | Call_gtk_window_set_titlebar ptr ptr
  | Call_gtk_window_set_title ptr string
  | Call_gtk_window_set_default_size ptr int int
  | Call_fl_dart_project_new ptr
  | Call_g_object_unref ptr

record world =
  heap :: heap
  calls :: "call list"

text \<open>The two strings the build system passes in as preprocessor definitions; they are
  not part of the source file, so the shell's functions take them as a parameter.\<close>

record build_config =
  APPLICATION_ID :: string
  APPLICATION_NAME :: string

section \<open>The heap\<close>

fun deref :: "heap \<Rightarrow> ptr \<Rightarrow> gobject option" where
  "deref h NULL = None"
| "deref h (Addr a) = (if a < length h then h ! a else None)"

definition is_application :: "heap \<Rightarrow> ptr \<Rightarrow> bool" where
  "is_application h p =
     (case deref h p of
        Some obj \<Rightarrow> (case inst obj of Application _ \<Rightarrow> True | _ \<Rightarrow> False)
      | None \<Rightarrow> False)"

definition is_window :: "heap \<Rightarrow> ptr \<Rightarrow> bool" where
  "is_window h p =
     (case deref h p of
        Some obj \<Rightarrow> (case inst obj of Window _ \<Rightarrow> True | _ \<Rightarrow> False)
      | None \<Rightarrow> False)"

definition is_header_bar :: "heap \<Rightarrow> ptr \<Rightarrow> bool" where
  "is_header_bar h p =
     (case deref h p of
        Some obj \<Rightarrow> (case inst obj of HeaderBar _ \<Rightarrow> True | _ \<Rightarrow> False)
      | None \<Rightarrow> False)"

definition is_dart_project :: "heap \<Rightarrow> ptr \<Rightarrow> bool" where
  "is_dart_project h p =
     (case deref h p of
        Some obj \<Rightarrow> (case inst obj of DartProject \<Rightarrow> True | _ \<Rightarrow> False)
      | None \<Rightarrow> False)"

definition is_widget :: "heap \<Rightarrow> ptr \<Rightarrow> bool" where
  "is_widget h p = (is_window h p \<or> is_header_bar h p)"

text \<open>Every address of the heap, in allocation order, and the live objects of one kind
  among them.\<close>

definition addresses :: "heap \<Rightarrow> ptr list" where
  "addresses h = map Addr [0..<length h]"

definition windows :: "heap \<Rightarrow> ptr list" where
  "windows h = filter (is_window h) (addresses h)"

definition header_bars :: "heap \<Rightarrow> ptr list" where
  "header_bars h = filter (is_header_bar h) (addresses h)"

definition dart_projects :: "heap \<Rightarrow> ptr list" where
  "dart_projects h = filter (is_dart_project h) (addresses h)"

text \<open>\<open>modify p f h\<close> rewrites the instance data of the live object at \<open>p\<close>; a \<open>NULL\<close>,
  dangling or finalised pointer leaves the heap as it is.\<close>

definition modify :: "ptr \<Rightarrow> (gtype_instance \<Rightarrow> gtype_instance) \<Rightarrow> heap \<Rightarrow> heap" where
  "modify p f h =
     (case p of
        NULL \<Rightarrow> h
      | Addr a \<Rightarrow>
          (case deref h p of
             None \<Rightarrow> h
           | Some obj \<Rightarrow> h[a := Some (obj\<lparr>inst := f (inst obj)\<rparr>)]))"

section \<open>The library calls\<close>

text \<open>
  None of the functions below is code of the repository: they are GLib's, GTK's and the
  Flutter embedder's, modelled after their documented behaviour as far as the shell
  depends on it. A setter checks its receiver the way the libraries' \<open>g_return_if_fail\<close>
  guards do and does nothing to the heap when the check fails. Every call is logged.
\<close>

text \<open>A fresh instance has GTK 3's defaults: no title, size unset (-1), not visible,
  no title buttons on a header bar, no handler connected to a header bar's signals.\<close>

fun instance_init :: "GType \<Rightarrow> gtype_instance" where
  "instance_init MY_TYPE_APPLICATION =
     Application \<lparr>application_id = None, flags = {}\<rparr>"
| "instance_init GTK_TYPE_APPLICATION_WINDOW =
     Window \<lparr>window_application = NULL, window_titlebar = NULL, window_title = None,
             default_width = - 1, default_height = - 1, window_visible = False\<rparr>"
| "instance_init GTK_TYPE_HEADER_BAR =
     HeaderBar \<lparr>header_title = None, show_title_buttons = False, header_visible = False,
                title_notify = []\<rparr>"
| "instance_init FL_TYPE_DART_PROJECT = DartProject"

text \<open>Setting a construction property by name; a name the type does not have, or a value
  of the wrong kind, is ignored (GLib warns and goes on).\<close>

fun set_property :: "gtype_instance \<Rightarrow> string \<times> gvalue \<Rightarrow> gtype_instance" where
  "set_property (Application a) (name, String_value v) =
     (if name = ''application-id'' then Application (a\<lparr>application_id := Some v\<rparr>)
      else Application a)"
| "set_property (Application a) (name, Flags_value v) =
     (if name = ''flags'' then Application (a\<lparr>flags := v\<rparr>) else Application a)"
| "set_property (Window w) (name, Object_value p) =
     (if name = ''application'' then Window (w\<lparr>window_application := p\<rparr>) else Window w)"
| "set_property i _ = i"

text \<open>Allocation: the new object takes the next address and starts with one reference,
  owned by the caller.\<close>

definition construct :: "GType \<Rightarrow> (string \<times> gvalue) list \<Rightarrow> heap \<Rightarrow> ptr \<times> heap" where
  "construct ty props h =
     (Addr (length h),
      h @ [Some \<lparr>ref_count = 1, inst = foldl set_property (instance_init ty) props\<rparr>])"

definition g_object_new :: "GType \<Rightarrow> (string \<times> gvalue) list \<Rightarrow> world \<Rightarrow> ptr \<times> world" where
  "g_object_new ty props s =
     (let (p, h) = construct ty props (heap s)
      in (p, \<lparr>heap = h, calls = calls s @ [Call_g_object_new ty props p]\<rparr>))"

text \<open>\<open>gtk_application_window_new\<close> returns \<open>NULL\<close> unless it is given an application;
  otherwise it constructs a window with its \<open>application\<close> property set.\<close>

definition gtk_application_window_new :: "ptr \<Rightarrow> world \<Rightarrow> ptr \<times> world" where
  "gtk_application_window_new app s =
     (if is_application (heap s) app then
        (let (p, h) = construct GTK_TYPE_APPLICATION_WINDOW
                        [(''application'', Object_value app)] (heap s)
         in (p, \<lparr>heap = h, calls = calls s @ [Call_gtk_application_window_new app p]\<rparr>))
      else (NULL, s\<lparr>calls := calls s @ [Call_gtk_application_window_new app NULL]\<rparr>))"

definition gtk_header_bar_new :: "world \<Rightarrow> ptr \<times> world" where
  "gtk_header_bar_new s =
     (let (p, h) = construct GTK_TYPE_HEADER_BAR [] (heap s)
      in (p, \<lparr>heap = h, calls = calls s @ [Call_gtk_header_bar_new p]\<rparr>))"

definition fl_dart_project_new :: "world \<Rightarrow> ptr \<times> world" where
  "fl_dart_project_new s =
     (let (p, h) = construct FL_TYPE_DART_PROJECT [] (heap s)
      in (p, \<lparr>heap = h, calls = calls s @ [Call_fl_dart_project_new p]\<rparr>))"

text \<open>The getters, through which the state of an object is read.\<close>

definition g_application_get_application_id :: "heap \<Rightarrow> ptr \<Rightarrow> string option" where
  "g_application_get_application_id h p =
     (case deref h p of
        Some obj \<Rightarrow> (case inst obj of Application a \<Rightarrow> application_id a | _ \<Rightarrow> None)
      | None \<Rightarrow> None)"

definition g_application_get_flags :: "heap \<Rightarrow> ptr \<Rightarrow> GApplicationFlags set" where
  "g_application_get_flags h p =
     (case deref h p of
        Some obj \<Rightarrow> (case inst obj of Application a \<Rightarrow> flags a | _ \<Rightarrow> {})
      | None \<Rightarrow> {})"

definition gtk_window_get_application :: "heap \<Rightarrow> ptr \<Rightarrow> ptr" where
  "gtk_window_get_application h p =
     (case deref h p of
        Some obj \<Rightarrow> (case inst obj of Window w \<Rightarrow> window_application w | _ \<Rightarrow> NULL)
      | None \<Rightarrow> NULL)"

definition gtk_window_get_titlebar :: "heap \<Rightarrow> ptr \<Rightarrow> ptr" where
  "gtk_window_get_titlebar h p =
     (case deref h p of
        Some obj \<Rightarrow> (case inst obj of Window w \<Rightarrow> window_titlebar w | _ \<Rightarrow> NULL)
      | None \<Rightarrow> NULL)"

definition gtk_window_get_title :: "heap \<Rightarrow> ptr \<Rightarrow> string option" where
  "gtk_window_get_title h p =
     (case deref h p of
        Some obj \<Rightarrow> (case inst obj of Window w \<Rightarrow> window_title w | _ \<Rightarrow> None)
      | None \<Rightarrow> None)"

definition gtk_window_get_default_size :: "heap \<Rightarrow> ptr \<Rightarrow> (int \<times> int) option" where
  "gtk_window_get_default_size h p =
     (case deref h p of
        Some obj \<Rightarrow>
          (case inst obj of
             Window w \<Rightarrow> Some (default_width w, default_height w)
           | _ \<Rightarrow> None)
      | None \<Rightarrow> None)"

definition gtk_header_bar_get_title :: "heap \<Rightarrow> ptr \<Rightarrow> string option" where
  "gtk_header_bar_get_title h p =
     (case deref h p of
        Some obj \<Rightarrow> (case inst obj of HeaderBar b \<Rightarrow> header_title b | _ \<Rightarrow> None)
      | None \<Rightarrow> None)"

definition gtk_header_bar_get_show_title_buttons :: "heap \<Rightarrow> ptr \<Rightarrow> bool" where
  "gtk_header_bar_get_show_title_buttons h p =
     (case deref h p of
        Some obj \<Rightarrow> (case inst obj of HeaderBar b \<Rightarrow> show_title_buttons b | _ \<Rightarrow> False)
      | None \<Rightarrow> False)"

definition gtk_widget_get_visible :: "heap \<Rightarrow> ptr \<Rightarrow> bool" where
  "gtk_widget_get_visible h p =
     (case deref h p of
        Some obj \<Rightarrow>
          (case inst obj of
             Window w \<Rightarrow> window_visible w
           | HeaderBar b \<Rightarrow> header_visible b
           | _ \<Rightarrow> False)
      | None \<Rightarrow> False)"

text \<open>Showing a widget sets its visible flag; a top-level window that is shown is mapped
  on the screen.\<close>

definition gtk_widget_show :: "ptr \<Rightarrow> world \<Rightarrow> world" where
  "gtk_widget_show widget s =
     \<lparr>heap = modify widget
               (\<lambda>i. case i of
                      Window w \<Rightarrow> Window (w\<lparr>window_visible := True\<rparr>)
                    | HeaderBar b \<Rightarrow> HeaderBar (b\<lparr>header_visible := True\<rparr>)
                    | _ \<Rightarrow> i) (heap s),
      calls = calls s @ [Call_gtk_widget_show widget]\<rparr>"

text \<open>
  GTK 3 keeps the title of a window and the title of a header bar installed as its titlebar
  in step. The field \<open>title_notify\<close> of a header bar lists the windows whose handler is
  connected to its \<open>notify::title\<close> signal; \<open>gtk_window_set_titlebar\<close> connects it. That
  handler, \<open>on_titlebar_title_notify\<close>, makes the window take the bar's title over, unless the
  bar has none, and writes nothing back to the bar.
\<close>

definition on_titlebar_title_notify :: "ptr \<Rightarrow> ptr \<Rightarrow> heap \<Rightarrow> heap" where
  "on_titlebar_title_notify bar window h =
     (case gtk_header_bar_get_title h bar of
        None \<Rightarrow> h
      | Some t \<Rightarrow>
          modify window
            (\<lambda>i. case i of Window w \<Rightarrow> Window (w\<lparr>window_title := Some t\<rparr>) | _ \<Rightarrow> i) h)"

definition title_handlers :: "heap \<Rightarrow> ptr \<Rightarrow> ptr list" where
  "title_handlers h bar =
     (case deref h bar of
        Some obj \<Rightarrow> (case inst obj of HeaderBar b \<Rightarrow> title_notify b | _ \<Rightarrow> [])
      | None \<Rightarrow> [])"

text \<open>What \<open>gtk_header_bar_set_title\<close> does to the heap: it stores the title and emits
  \<open>notify::title\<close>, which runs the handlers connected to the bar.\<close>

definition header_bar_store_title :: "ptr \<Rightarrow> string \<Rightarrow> heap \<Rightarrow> heap" where
  "header_bar_store_title bar t h =
     foldl (\<lambda>h' window. on_titlebar_title_notify bar window h')
       (modify bar
          (\<lambda>i. case i of HeaderBar b \<Rightarrow> HeaderBar (b\<lparr>header_title := Some t\<rparr>) | _ \<Rightarrow> i) h)
       (title_handlers h bar)"

definition gtk_header_bar_set_title :: "ptr \<Rightarrow> string \<Rightarrow> world \<Rightarrow> world" where
  "gtk_header_bar_set_title bar t s =
     \<lparr>heap = header_bar_store_title bar t (heap s),
      calls = calls s @ [Call_gtk_header_bar_set_title bar t]\<rparr>"

definition gtk_header_bar_set_show_title_buttons :: "ptr \<Rightarrow> bool \<Rightarrow> world \<Rightarrow> world" where
  "gtk_header_bar_set_show_title_buttons bar setting s =
     \<lparr>heap = modify bar
               (\<lambda>i. case i of
                      HeaderBar b \<Rightarrow> HeaderBar (b\<lparr>show_title_buttons := setting\<rparr>)
                    | _ \<Rightarrow> i) (heap s),
      calls = calls s @ [Call_gtk_header_bar_set_show_title_buttons bar setting]\<rparr>"

text \<open>Taking the old titlebar off a window disconnects the window's handler from it.\<close>

definition unset_titlebar :: "ptr \<Rightarrow> heap \<Rightarrow> heap" where
  "unset_titlebar window h =
     (let old = gtk_window_get_titlebar h window;
          h1 = modify old
                 (\<lambda>i. case i of
                        HeaderBar b \<Rightarrow>
                          HeaderBar (b\<lparr>title_notify := removeAll window (title_notify b)\<rparr>)
                      | _ \<Rightarrow> i) h
      in modify window
           (\<lambda>i. case i of Window w \<Rightarrow> Window (w\<lparr>window_titlebar := NULL\<rparr>) | _ \<Rightarrow> i) h1)"

text \<open>\<open>gtk_window_set_titlebar\<close> replaces the titlebar of a window. When the new one is a
  header bar, the window connects its handler to the bar's \<open>notify::title\<close> and runs it
  once, so a bar that has a title gives it to the window.\<close>

definition gtk_window_set_titlebar :: "ptr \<Rightarrow> ptr \<Rightarrow> world \<Rightarrow> world" where
  "gtk_window_set_titlebar window bar s =
     \<lparr>heap = (if is_window (heap s) window \<and> (bar = NULL \<or> is_widget (heap s) bar) then
                (let h1 = unset_titlebar window (heap s)
                 in if bar = NULL then h1
                    else
                      (let h2 = modify window
                                  (\<lambda>i. case i of
                                         Window w \<Rightarrow> Window (w\<lparr>window_titlebar := bar\<rparr>)
                                       | _ \<Rightarrow> i) h1
                       in if is_header_bar h2 bar then
                            on_titlebar_title_notify bar window
                              (modify bar
                                 (\<lambda>i. case i of
                                        HeaderBar b \<Rightarrow>
                                          HeaderBar (b\<lparr>title_notify := title_notify b @ [window]\<rparr>)
                                      | _ \<Rightarrow> i) h2)
                          else h2))
              else heap s),
      calls = calls s @ [Call_gtk_window_set_titlebar window bar]\<rparr>"

text \<open>\<open>gtk_window_set_title\<close> stores the title of the window and, when the window's
  titlebar is a header bar, sets the title of that header bar to it as well.\<close>

definition gtk_window_set_title :: "ptr \<Rightarrow> string \<Rightarrow> world \<Rightarrow> world" where
  "gtk_window_set_title window t s =
     \<lparr>heap = (if is_window (heap s) window then
                (let h1 = modify window
                            (\<lambda>i. case i of
                                   Window w \<Rightarrow> Window (w\<lparr>window_title := Some t\<rparr>)
                                 | _ \<Rightarrow> i) (heap s);
                     bar = gtk_window_get_titlebar h1 window
                 in if is_header_bar h1 bar then header_bar_store_title bar t h1 else h1)
              else heap s),
      calls = calls s @ [Call_gtk_window_set_title window t]\<rparr>"

definition gtk_window_set_default_size :: "ptr \<Rightarrow> int \<Rightarrow> int \<Rightarrow> world \<Rightarrow> world" where
  "gtk_window_set_default_size window width height s =
     \<lparr>heap = (if - 1 \<le> width \<and> - 1 \<le> height then
                modify window
                  (\<lambda>i. case i of
                         Window w \<Rightarrow> Window (w\<lparr>default_width := width, default_height := height\<rparr>)
                       | _ \<Rightarrow> i) (heap s)
              else heap s),
      calls = calls s @ [Call_gtk_window_set_default_size window width height]\<rparr>"

text \<open>Dropping a reference: the count goes down by one, and the object whose last
  reference is dropped is finalised, which leaves its cell empty.\<close>

definition g_object_unref :: "ptr \<Rightarrow> world \<Rightarrow> world" where
  "g_object_unref object s =
     \<lparr>heap = (case object of
                NULL \<Rightarrow> heap s
              | Addr a \<Rightarrow>
                  (case deref (heap s) object of
                     None \<Rightarrow> heap s
                   | Some obj \<Rightarrow>
                       (if ref_count obj \<le> 1 then (heap s)[a := None]
                        else (heap s)[a := Some (obj\<lparr>ref_count := ref_count obj - 1\<rparr>)]))),
      calls = calls s @ [Call_g_object_unref object]\<rparr>"

text \<open>What \<open>g_autoptr\<close> arranges for a local variable when its scope ends: the reference
  is dropped unless the variable is \<open>NULL\<close>.\<close>

definition g_autoptr_cleanup :: "ptr \<Rightarrow> world \<Rightarrow> world" where
  "g_autoptr_cleanup p s = (if p = NULL then s else g_object_unref p s)"

section \<open>The shell: \<^verbatim>\<open>linux/my_application.cc\<close>\<close>

text \<open>The checked casts of the C code return the pointer they are given.\<close>

abbreviation (input) MY_APPLICATION :: "ptr \<Rightarrow> ptr" where
  "MY_APPLICATION p \<equiv> p"

abbreviation (input) GTK_APPLICATION :: "ptr \<Rightarrow> ptr" where
  "GTK_APPLICATION p \<equiv> p"

abbreviation (input) GTK_WINDOW :: "ptr \<Rightarrow> ptr" where
  "GTK_WINDOW p \<equiv> p"

abbreviation (input) GTK_WIDGET :: "ptr \<Rightarrow> ptr" where
  "GTK_WIDGET p \<equiv> p"

abbreviation (input) GTK_HEADER_BAR :: "ptr \<Rightarrow> ptr" where
  "GTK_HEADER_BAR p \<equiv> p"

text \<open>Modelled from the spec: \<open>my_application_get_type\<close>, which the type-definition macro
  of the full file generates and the source file here does not contain. The spec has the
  constructor return "a newly constructed application instance", so the type it names is
  the application's.\<close>

definition my_application_get_type :: GType where
  "my_application_get_type = MY_TYPE_APPLICATION"

definition my_application_new :: "build_config \<Rightarrow> world \<Rightarrow> ptr \<times> world" where
  "my_application_new cfg s =
     (let (obj, s1) =
            g_object_new my_application_get_type
              [(''application-id'', String_value (APPLICATION_ID cfg)),
               (''flags'', Flags_value {G_APPLICATION_HANDLES_OPEN})] s
      in (MY_APPLICATION obj, s1))"

text \<open>The handler of \<open>GApplication::activate\<close>. It returns nothing; the model returns the
  world it leaves behind. The local \<open>self\<close> of the C code is bound and never used. The last
  step is the clean-up of the \<open>g_autoptr\<close> variable \<open>project\<close> at the closing brace.\<close>

definition my_application_activate :: "build_config \<Rightarrow> ptr \<Rightarrow> world \<Rightarrow> world" where
  "my_application_activate cfg application s0 =
     (let self = MY_APPLICATION application;
          (window, s1) = gtk_application_window_new (GTK_APPLICATION application) s0;
          window = GTK_WINDOW window;
          (header_bar, s2) = gtk_header_bar_new s1;
          s3 = gtk_widget_show header_bar s2;
          s4 = gtk_header_bar_set_title (GTK_HEADER_BAR header_bar) (APPLICATION_NAME cfg) s3;
          s5 = gtk_header_bar_set_show_title_buttons (GTK_HEADER_BAR header_bar) True s4;
          s6 = gtk_window_set_titlebar window header_bar s5;
          s7 = gtk_window_set_title window ''FruitNinja'' s6;
          s8 = gtk_window_set_default_size window 1280 720 s7;
          s9 = gtk_widget_show (GTK_WIDGET window) s8;
          (project, s10) = fl_dart_project_new s9
      in g_autoptr_cleanup project s10)"

text \<open>The objects and the calls an invocation added, read off the worlds before and
  after it.\<close>

definition created_windows :: "world \<Rightarrow> world \<Rightarrow> ptr list" where
  "created_windows s s' = filter (\<lambda>p. p \<notin> set (windows (heap s))) (windows (heap s'))"

definition created_header_bars :: "world \<Rightarrow> world \<Rightarrow> ptr list" where
  "created_header_bars s s' =
     filter (\<lambda>p. p \<notin> set (header_bars (heap s))) (header_bars (heap s'))"

definition new_calls :: "world \<Rightarrow> world \<Rightarrow> call list" where
  "new_calls s s' = drop (length (calls s)) (calls s')"

fun acquired_projects :: "call list \<Rightarrow> ptr list" where
  "acquired_projects [] = []"
| "acquired_projects (Call_fl_dart_project_new p # cs) = p # acquired_projects cs"
| "acquired_projects (_ # cs) = acquired_projects cs"

fun created_by_window_new :: "call list \<Rightarrow> ptr list" where
  "created_by_window_new [] = []"
| "created_by_window_new (Call_gtk_application_window_new _ p # cs) =
     p # created_by_window_new cs"
| "created_by_window_new (_ # cs) = created_by_window_new cs"

text \<open>The object pointers a call passes or returns, and the calls of a log that mention
  a given pointer.\<close>

fun property_objects :: "(string \<times> gvalue) list \<Rightarrow> ptr list" where
  "property_objects [] = []"
| "property_objects ((_, Object_value p) # props) = p # property_objects props"
| "property_objects (_ # props) = property_objects props"

fun call_objects :: "call \<Rightarrow> ptr list" where
  "call_objects (Call_g_object_new _ props p) = p # property_objects props"
| "call_objects (Call_gtk_application_window_new app p) = [app, p]"
| "call_objects (Call_gtk_header_bar_new p) = [p]"
| "call_objects (Call_gtk_widget_show p) = [p]"
| "call_objects (Call_gtk_header_bar_set_title p _) = [p]"
| "call_objects (Call_gtk_header_bar_set_show_title_buttons p _) = [p]"
| "call_objects (Call_gtk_window_set_titlebar p q) = [p, q]"
| "call_objects (Call_gtk_window_set_title p _) = [p]"
| "call_objects (Call_gtk_window_set_default_size p _ _) = [p]"
| "call_objects (Call_fl_dart_project_new p) = [p]"
| "call_objects (Call_g_object_unref p) = [p]"

definition calls_with :: "ptr \<Rightarrow> call list \<Rightarrow> call list" where
  "calls_with p cs = filter (\<lambda>c. p \<in> set (call_objects c)) cs"

text \<open>\<open>precedes x y cs\<close>: both calls are in the log, and \<open>y\<close> is not made before the first
  \<open>x\<close>.\<close>

definition precedes :: "call \<Rightarrow> call \<Rightarrow> call list \<Rightarrow> bool" where
  "precedes x y cs =
     (x \<in> set cs \<and> y \<in> set cs \<and> y \<notin> set (takeWhile (\<lambda>c. c \<noteq> x) cs))"

text \<open>An object is attached to a window when it is alive and the window holds a pointer
  to it, directly or through the objects it holds. \<open>reachable h k ps\<close> follows the
  pointers held by live objects for \<open>k\<close> rounds.\<close>

fun pointers_of :: "gtype_instance \<Rightarrow> ptr list" where
  "pointers_of (Window w) = [window_application w, window_titlebar w]"
| "pointers_of _ = []"

definition held_by :: "heap \<Rightarrow> ptr \<Rightarrow> ptr list" where
  "held_by h p = (case deref h p of Some obj \<Rightarrow> pointers_of (inst obj) | None \<Rightarrow> [])"

fun reachable :: "heap \<Rightarrow> nat \<Rightarrow> ptr list \<Rightarrow> ptr list" where
  "reachable h 0 ps = ps"
| "reachable h (Suc k) ps = reachable h k (ps @ concat (map (held_by h) ps))"

definition project_attached :: "heap \<Rightarrow> ptr \<Rightarrow> ptr \<Rightarrow> bool" where
  "project_attached h window project =
     (is_dart_project h project \<and> project \<in> set (reachable h (length h) [window]))"

text \<open>The steps of the activation handler as the specification lists them, as a log of
  toolkit calls.\<close>

definition activation_steps :: "build_config \<Rightarrow> ptr \<Rightarrow> ptr \<Rightarrow> ptr \<Rightarrow> ptr \<Rightarrow> call list" where
  "activation_steps cfg app window header_bar project =
     [Call_gtk_application_window_new app window] @
     [Call_gtk_header_bar_new header_bar,
      Call_gtk_widget_show header_bar,
      Call_gtk_header_bar_set_title header_bar (APPLICATION_NAME cfg),
      Call_gtk_header_bar_set_show_title_buttons header_bar True] @
     [Call_gtk_window_set_titlebar window header_bar] @
     [Call_gtk_window_set_title window ''FruitNinja''] @
     [Call_gtk_window_set_default_size window 1280 720] @
     [Call_gtk_widget_show window] @
     [Call_fl_dart_project_new project, Call_g_object_unref project]"

text \<open>A launch: the world is empty, the program constructs its application object, and
  the desktop then activates it. The two strings stand for a build's values.\<close>

definition empty_world :: world where
  "empty_world = \<lparr>heap = [], calls = []\<rparr>"

definition example_config :: build_config where
  "example_config =
     \<lparr>APPLICATION_ID = ''com.example.fruit_ninja'', APPLICATION_NAME = ''fruit_ninja''\<rparr>"

definition launched_world :: world where
  "launched_world = snd (my_application_new example_config empty_world)"

definition launched_application :: ptr where
  "launched_application = fst (my_application_new example_config empty_world)"

definition activated_world :: world where
  "activated_world = my_application_activate example_config launched_application launched_world"

definition activated_twice_world :: world where
  "activated_twice_world =
     my_application_activate example_config launched_application activated_world"

text \<open>The window and the header bar an activation on a live application leaves at the
  end of a heap that had \<open>n\<close> cells.\<close>

definition activated_window :: "ptr \<Rightarrow> nat \<Rightarrow> gobject" where
  "activated_window app n =
     \<lparr>ref_count = 1,
      inst = Window \<lparr>window_application = app, window_titlebar = Addr (Suc n),
                     window_title = Some ''FruitNinja'', default_width = 1280,
                     default_height = 720, window_visible = True\<rparr>\<rparr>"

definition activated_header_bar :: "nat \<Rightarrow> gobject" where
  "activated_header_bar n =
     \<lparr>ref_count = 1,
      inst = HeaderBar \<lparr>header_title = Some ''FruitNinja'', show_title_buttons = True,
                        header_visible = True, title_notify = [Addr n]\<rparr>\<rparr>"

text \<open>The header bar an activation leaves when it was given no live application, and so
  had no window to install the bar on.\<close>

definition uninstalled_header_bar :: "build_config \<Rightarrow> gobject" where
  "uninstalled_header_bar cfg =
     \<lparr>ref_count = 1,
      inst = HeaderBar \<lparr>header_title = Some (APPLICATION_NAME cfg), show_title_buttons = True,
                        header_visible = True, title_notify = []\<rparr>\<rparr>"

section \<open>Facts about the heap\<close>

lemma nth_new1: "(h @ x # y # xs) ! Suc (length h) = y"
  by (simp add: nth_append)

lemma nth_new2: "(h @ x # y # z # xs) ! Suc (Suc (length h)) = z"
  by (simp add: nth_append)

lemma upd_new1: "(h @ x # y # xs)[Suc (length h) := v] = h @ x # v # xs"
  using list_update_length [of "h @ [x]" y xs v] by simp

lemma upd_new2: "(h @ x # y # z # xs)[Suc (Suc (length h)) := v] = h @ x # y # v # xs"
  using list_update_length [of "h @ [x, y]" z xs v] by simp

lemma modify_new0:
  "modify (Addr (length h)) f (h @ Some obj # xs) = h @ Some (obj\<lparr>inst := f (inst obj)\<rparr>) # xs"
  by (simp add: modify_def)

lemma modify_new1:
  "modify (Addr (Suc (length h))) f (h @ x # Some obj # xs) =
     h @ x # Some (obj\<lparr>inst := f (inst obj)\<rparr>) # xs"
  by (simp add: modify_def nth_new1 upd_new1)

lemma modify_NULL: "modify NULL f h = h"
  by (simp add: modify_def)

lemma unref_new1:
  "g_object_unref (Addr (Suc (length h)))
     \<lparr>heap = h @ [x, Some \<lparr>ref_count = Suc 0, inst = i\<rparr>], calls = cs\<rparr> =
   \<lparr>heap = h @ [x, None], calls = cs @ [Call_g_object_unref (Addr (Suc (length h)))]\<rparr>"
  by (simp add: g_object_unref_def nth_new1 upd_new1)

lemma unref_new2:
  "g_object_unref (Addr (Suc (Suc (length h))))
     \<lparr>heap = h @ [x, y, Some \<lparr>ref_count = Suc 0, inst = i\<rparr>], calls = cs\<rparr> =
   \<lparr>heap = h @ [x, y, None],
    calls = cs @ [Call_g_object_unref (Addr (Suc (Suc (length h))))]\<rparr>"
  by (simp add: g_object_unref_def nth_new2 upd_new2)

lemma addresses_append:
  "addresses (h @ xs) = addresses h @ map (\<lambda>k. Addr (length h + k)) [0..<length xs]"
proof -
  have "[0..<length h + length xs] = [0..<length h] @ [length h..<length h + length xs]"
    by (rule upt_add_eq_append) simp
  moreover have "[length h..<length h + length xs] = map (\<lambda>k. length h + k) [0..<length xs]"
    by (induction xs rule: rev_induct) simp_all
  ultimately show ?thesis
    by (simp add: addresses_def)
qed

lemma address_bound: "p \<in> set (addresses h) \<Longrightarrow> \<exists>a. p = Addr a \<and> a < length h"
  by (auto simp: addresses_def)

lemma windows_append:
  "windows (h @ xs) =
     windows h @ filter (is_window (h @ xs)) (map (\<lambda>k. Addr (length h + k)) [0..<length xs])"
proof -
  have "filter (is_window (h @ xs)) (addresses h) = filter (is_window h) (addresses h)"
    by (rule filter_cong [OF refl]) (auto simp: is_window_def nth_append dest!: address_bound)
  then show ?thesis
    by (simp add: windows_def addresses_append)
qed

lemma header_bars_append:
  "header_bars (h @ xs) =
     header_bars h @
     filter (is_header_bar (h @ xs)) (map (\<lambda>k. Addr (length h + k)) [0..<length xs])"
proof -
  have "filter (is_header_bar (h @ xs)) (addresses h) = filter (is_header_bar h) (addresses h)"
    by (rule filter_cong [OF refl]) (auto simp: is_header_bar_def nth_append dest!: address_bound)
  then show ?thesis
    by (simp add: header_bars_def addresses_append)
qed

lemma dart_projects_append:
  "dart_projects (h @ xs) =
     dart_projects h @
     filter (is_dart_project (h @ xs)) (map (\<lambda>k. Addr (length h + k)) [0..<length xs])"
proof -
  have "filter (is_dart_project (h @ xs)) (addresses h) = filter (is_dart_project h) (addresses h)"
    by (rule filter_cong [OF refl]) (auto simp: is_dart_project_def nth_append dest!: address_bound)
  then show ?thesis
    by (simp add: dart_projects_def addresses_append)
qed

lemma fresh_not_window: "Addr (length h + k) \<notin> set (windows h)"
  by (auto simp: windows_def dest!: address_bound)

lemma fresh_not_header_bar: "Addr (length h + k) \<notin> set (header_bars h)"
  by (auto simp: header_bars_def dest!: address_bound)

lemma filter_fresh: "Addr a \<notin> set xs \<Longrightarrow> filter (\<lambda>p. p \<notin> set xs) (xs @ [Addr a]) = [Addr a]"
  by (simp add: filter_empty_conv)

lemma deref_new0: "deref (h @ x # xs) (Addr (length h)) = x"
  by simp

lemma deref_new1: "deref (h @ x # y # xs) (Addr (Suc (length h))) = y"
  by (simp add: nth_new1)

lemma header_bar_set_title_new0:
  "title_notify b = [] \<Longrightarrow>
   gtk_header_bar_set_title (Addr (length h)) t
     \<lparr>heap = h @ [Some \<lparr>ref_count = r, inst = HeaderBar b\<rparr>], calls = cs\<rparr> =
   \<lparr>heap = h @ [Some \<lparr>ref_count = r, inst = HeaderBar (b\<lparr>header_title := Some t\<rparr>)\<rparr>],
    calls = cs @ [Call_gtk_header_bar_set_title (Addr (length h)) t]\<rparr>"
  by (simp add: gtk_header_bar_set_title_def header_bar_store_title_def title_handlers_def
      modify_new0 deref_new0 del: deref.simps)

lemma header_bar_set_title_new1:
  "title_notify b = [] \<Longrightarrow>
   gtk_header_bar_set_title (Addr (Suc (length h))) t
     \<lparr>heap = h @ [x, Some \<lparr>ref_count = r, inst = HeaderBar b\<rparr>], calls = cs\<rparr> =
   \<lparr>heap = h @ [x, Some \<lparr>ref_count = r, inst = HeaderBar (b\<lparr>header_title := Some t\<rparr>)\<rparr>],
    calls = cs @ [Call_gtk_header_bar_set_title (Addr (Suc (length h))) t]\<rparr>"
  by (simp add: gtk_header_bar_set_title_def header_bar_store_title_def title_handlers_def
      modify_new1 deref_new1 del: deref.simps)

lemma window_set_titlebar_new:
  "window_titlebar w = NULL \<Longrightarrow>
   gtk_window_set_titlebar (Addr (length h)) (Addr (Suc (length h)))
     \<lparr>heap = h @ [Some \<lparr>ref_count = r, inst = Window w\<rparr>,
                  Some \<lparr>ref_count = r', inst = HeaderBar b\<rparr>], calls = cs\<rparr> =
   \<lparr>heap = h @
      [Some \<lparr>ref_count = r,
             inst = Window (w\<lparr>window_titlebar := Addr (Suc (length h)),
                              window_title := (case header_title b of
                                                 None \<Rightarrow> window_title w
                                               | Some t \<Rightarrow> Some t)\<rparr>)\<rparr>,
       Some \<lparr>ref_count = r',
             inst = HeaderBar (b\<lparr>title_notify := title_notify b @ [Addr (length h)]\<rparr>)\<rparr>],
    calls = cs @ [Call_gtk_window_set_titlebar (Addr (length h)) (Addr (Suc (length h)))]\<rparr>"
  by (simp add: gtk_window_set_titlebar_def unset_titlebar_def on_titlebar_title_notify_def
      gtk_window_get_titlebar_def gtk_header_bar_get_title_def is_window_def is_widget_def
      is_header_bar_def Let_def modify_new0 modify_new1 modify_NULL deref_new0 deref_new1
      split: option.split del: deref.simps)

lemma window_set_titlebar_NULL:
  "gtk_window_set_titlebar NULL bar s = s\<lparr>calls := calls s @ [Call_gtk_window_set_titlebar NULL bar]\<rparr>"
  by (simp add: gtk_window_set_titlebar_def is_window_def)

lemma window_set_title_NULL:
  "gtk_window_set_title NULL t s = s\<lparr>calls := calls s @ [Call_gtk_window_set_title NULL t]\<rparr>"
  by (simp add: gtk_window_set_title_def is_window_def)

lemma window_set_title_new:
  "window_titlebar w = Addr (Suc (length h)) \<Longrightarrow> title_notify b = [Addr (length h)] \<Longrightarrow>
   gtk_window_set_title (Addr (length h)) t
     \<lparr>heap = h @ [Some \<lparr>ref_count = r, inst = Window w\<rparr>,
                  Some \<lparr>ref_count = r', inst = HeaderBar b\<rparr>], calls = cs\<rparr> =
   \<lparr>heap = h @
      [Some \<lparr>ref_count = r, inst = Window (w\<lparr>window_title := Some t\<rparr>)\<rparr>,
       Some \<lparr>ref_count = r', inst = HeaderBar (b\<lparr>header_title := Some t\<rparr>)\<rparr>],
    calls = cs @ [Call_gtk_window_set_title (Addr (length h)) t]\<rparr>"
  by (simp add: gtk_window_set_title_def header_bar_store_title_def title_handlers_def
      on_titlebar_title_notify_def gtk_window_get_titlebar_def gtk_header_bar_get_title_def
      is_window_def is_header_bar_def Let_def modify_new0 modify_new1 deref_new0 deref_new1
      del: deref.simps)

section \<open>What the handler leaves behind\<close>

lemmas simple_calls =
  gtk_application_window_new_def construct_def gtk_header_bar_new_def gtk_widget_show_def
  gtk_header_bar_set_show_title_buttons_def gtk_window_set_default_size_def
  fl_dart_project_new_def g_autoptr_cleanup_def

lemma activate_valid:
  assumes "is_application (heap s) app"
  shows "my_application_activate cfg app s =
    \<lparr>heap = heap s @
       [Some (activated_window app (length (heap s))),
        Some (activated_header_bar (length (heap s))), None],
     calls = calls s @
       activation_steps cfg app (Addr (length (heap s))) (Addr (Suc (length (heap s))))
         (Addr (Suc (Suc (length (heap s)))))\<rparr>"
  using assms
  by (simp add: my_application_activate_def simple_calls Let_def activated_window_def
      activated_header_bar_def activation_steps_def modify_new0 modify_new1
      header_bar_set_title_new1 window_set_titlebar_new window_set_title_new unref_new2
      del: deref.simps)

lemma activate_invalid:
  assumes "\<not> is_application (heap s) app"
  shows "my_application_activate cfg app s =
    \<lparr>heap = heap s @ [Some (uninstalled_header_bar cfg), None],
     calls = calls s @
       [Call_gtk_application_window_new app NULL,
        Call_gtk_header_bar_new (Addr (length (heap s))),
        Call_gtk_widget_show (Addr (length (heap s))),
        Call_gtk_header_bar_set_title (Addr (length (heap s))) (APPLICATION_NAME cfg),
        Call_gtk_header_bar_set_show_title_buttons (Addr (length (heap s))) True,
        Call_gtk_window_set_titlebar NULL (Addr (length (heap s))),
        Call_gtk_window_set_title NULL ''FruitNinja'',
        Call_gtk_window_set_default_size NULL 1280 720,
        Call_gtk_widget_show NULL,
        Call_fl_dart_project_new (Addr (Suc (length (heap s)))),
        Call_g_object_unref (Addr (Suc (length (heap s))))]\<rparr>"
  using assms
  by (simp add: my_application_activate_def simple_calls Let_def uninstalled_header_bar_def
      modify_new0 modify_NULL header_bar_set_title_new0 window_set_titlebar_NULL
      window_set_title_NULL unref_new1 del: deref.simps)

lemma activate_heap:
  "is_application (heap s) app \<Longrightarrow>
   heap (my_application_activate cfg app s) =
     heap s @
     [Some (activated_window app (length (heap s))), Some (activated_header_bar (length (heap s))), None]"
  by (simp add: activate_valid)

lemma activate_new_calls:
  "is_application (heap s) app \<Longrightarrow>
   new_calls s (my_application_activate cfg app s) =
     activation_steps cfg app (Addr (length (heap s))) (Addr (Suc (length (heap s))))
       (Addr (Suc (Suc (length (heap s)))))"
  by (simp add: activate_valid new_calls_def)

lemma activate_windows:
  "is_application (heap s) app \<Longrightarrow>
   windows (heap (my_application_activate cfg app s)) =
     windows (heap s) @ [Addr (length (heap s))]"
  by (simp add: activate_heap windows_append is_window_def nth_append
      activated_window_def activated_header_bar_def)

lemma activate_header_bars:
  "is_application (heap s) app \<Longrightarrow>
   header_bars (heap (my_application_activate cfg app s)) =
     header_bars (heap s) @ [Addr (Suc (length (heap s)))]"
  by (simp add: activate_heap header_bars_append is_header_bar_def nth_append
      activated_window_def activated_header_bar_def)

lemma activate_created_windows:
  "is_application (heap s) app \<Longrightarrow>
   created_windows s (my_application_activate cfg app s) = [Addr (length (heap s))]"
  using fresh_not_window [of "heap s" 0]
  by (simp add: created_windows_def activate_windows filter_fresh)

lemma activate_created_header_bars:
  "is_application (heap s) app \<Longrightarrow>
   created_header_bars s (my_application_activate cfg app s) = [Addr (Suc (length (heap s)))]"
  using fresh_not_header_bar [of "heap s" 1]
  by (simp add: created_header_bars_def activate_header_bars filter_fresh)

lemma activate_deref_window:
  "is_application (heap s) app \<Longrightarrow>
   deref (heap (my_application_activate cfg app s)) (Addr (length (heap s))) =
     Some (activated_window app (length (heap s)))"
  by (simp add: activate_heap)

lemma activate_deref_header_bar:
  "is_application (heap s) app \<Longrightarrow>
   deref (heap (my_application_activate cfg app s)) (Addr (Suc (length (heap s)))) =
     Some (activated_header_bar (length (heap s)))"
  by (simp add: activate_heap nth_append)

lemma activate_deref_project:
  "is_application (heap s) app \<Longrightarrow>
   deref (heap (my_application_activate cfg app s)) (Addr (Suc (Suc (length (heap s))))) = None"
  by (simp add: activate_heap nth_append)

lemma activate_deref_old:
  "a < length (heap s) \<Longrightarrow>
   deref (heap (my_application_activate cfg app s)) (Addr a) = deref (heap s) (Addr a)"
  by (cases "is_application (heap s) app")
     (simp_all add: activate_valid activate_invalid nth_append)

lemma activate_keeps_application:
  "is_application (heap s) app \<Longrightarrow>
   is_application (heap (my_application_activate cfg app' s)) app"
proof -
  assume live: "is_application (heap s) app"
  then obtain a where "app = Addr a" "a < length (heap s)"
    by (cases app) (auto simp: is_application_def split: if_splits)
  with live show ?thesis
    unfolding is_application_def by (simp only: activate_deref_old)
qed

lemma launched: "launched_world =
    \<lparr>heap = [Some \<lparr>ref_count = 1,
              inst = Application \<lparr>application_id = Some ''com.example.fruit_ninja'',
                                   flags = {G_APPLICATION_HANDLES_OPEN}\<rparr>\<rparr>],
     calls = [Call_g_object_new MY_TYPE_APPLICATION
               [(''application-id'', String_value ''com.example.fruit_ninja''),
                (''flags'', Flags_value {G_APPLICATION_HANDLES_OPEN})] (Addr 0)]\<rparr>"
  by (simp add: launched_world_def my_application_new_def g_object_new_def construct_def
      my_application_get_type_def example_config_def empty_world_def)

lemma launched_app: "launched_application = Addr 0"
  by (simp add: launched_application_def my_application_new_def g_object_new_def construct_def
      empty_world_def)

lemma launched_is_application: "is_application (heap launched_world) launched_application"
  by (simp add: launched launched_app is_application_def)

lemma launched_length: "length (heap launched_world) = 1"
  by (simp add: launched)

section \<open>The application constructor\<close>

text \<open>
  C6. \<open>my_application_new\<close> takes nothing but the build's constants and returns a newly
  constructed application instance: the pointer it returns was not allocated before, the
  heap grows by exactly that one object and keeps what it had, the object is an
  application whose identifier is \<open>APPLICATION_ID\<close> and whose flags are the open-handling
  flag.
\<close>

theorem my_application_new_configured:
  "(case my_application_new cfg s of
      (app, s') \<Rightarrow>
        deref (heap s) app = None \<and> app \<noteq> NULL \<and>
        heap s' = heap s @ [deref (heap s') app] \<and>
        is_application (heap s') app \<and>
        g_application_get_application_id (heap s') app = Some (APPLICATION_ID cfg) \<and>
        G_APPLICATION_HANDLES_OPEN \<in> g_application_get_flags (heap s') app \<and>
        g_application_get_flags (heap s') app = {G_APPLICATION_HANDLES_OPEN})"
  by (simp add: my_application_new_def g_object_new_def construct_def
      my_application_get_type_def is_application_def g_application_get_application_id_def
      g_application_get_flags_def)

section \<open>The activation handler\<close>

text \<open>
  The handler is registered as the application's own \<open>activate\<close> handler, so the pointer
  it receives is a live application object; the theorems below assume that much of its
  argument and nothing of the rest of the world.
\<close>

text \<open>
  C1. The claim is that the handler, before it returns, attaches the Dart-project
  descriptor it acquired to the window it constructed. The code does not do that. On a
  launch the window the handler constructed is at address 1 and the descriptor it acquired
  at address 3; the only calls that receive the descriptor are its constructor and its
  release, and when the handler returns the descriptor is finalised and not attached to
  the window.
\<close>

theorem project_not_attached_on_launch:
  "created_windows launched_world activated_world = [Addr 1] \<and>
   acquired_projects (new_calls launched_world activated_world) = [Addr 3] \<and>
   calls_with (Addr 3) (new_calls launched_world activated_world) =
     [Call_fl_dart_project_new (Addr 3), Call_g_object_unref (Addr 3)] \<and>
   deref (heap activated_world) (Addr 3) = None \<and>
   \<not> project_attached (heap activated_world) (Addr 1) (Addr 3)"
proof -
  have dead: "deref (heap activated_world) (Addr 3) = None"
    using activate_deref_project [OF launched_is_application, of example_config]
    by (simp add: activated_world_def launched_length eval_nat_numeral)
  have "\<not> project_attached (heap activated_world) (Addr 1) (Addr 3)"
    unfolding project_attached_def is_dart_project_def by (simp only: dead option.case simp_thms)
  moreover have "created_windows launched_world activated_world = [Addr 1]"
    using activate_created_windows [OF launched_is_application, of example_config]
    by (simp add: activated_world_def launched_length)
  moreover have "acquired_projects (new_calls launched_world activated_world) = [Addr 3]"
    using activate_new_calls [OF launched_is_application, of example_config]
    by (simp add: activated_world_def launched_length activation_steps_def eval_nat_numeral)
  moreover have "calls_with (Addr 3) (new_calls launched_world activated_world) =
      [Call_fl_dart_project_new (Addr 3), Call_g_object_unref (Addr 3)]"
    using activate_new_calls [OF launched_is_application, of example_config]
    by (simp add: activated_world_def launched_length launched_app activation_steps_def
        calls_with_def eval_nat_numeral)
  ultimately show ?thesis using dead by blast
qed

text \<open>
  C2. The calls the handler makes are exactly the steps the specification lists, in that
  order, on the window and the header bar the invocation created and on a descriptor
  allocated during it; the window is bound to the application, and the descriptor is
  gone when the handler has returned.
\<close>

theorem activation_steps_in_order:
  assumes "is_application (heap s) app"
  shows "\<exists>window header_bar project.
           new_calls s (my_application_activate cfg app s) =
             activation_steps cfg app window header_bar project \<and>
           created_windows s (my_application_activate cfg app s) = [window] \<and>
           created_header_bars s (my_application_activate cfg app s) = [header_bar] \<and>
           gtk_window_get_application (heap (my_application_activate cfg app s)) window = app \<and>
           project \<notin> set (addresses (heap s)) \<and>
           project \<in> set (addresses (heap (my_application_activate cfg app s))) \<and>
           deref (heap (my_application_activate cfg app s)) project = None"
proof -
  let ?n = "length (heap s)"
  have "gtk_window_get_application (heap (my_application_activate cfg app s)) (Addr ?n) = app"
    unfolding gtk_window_get_application_def
    by (simp add: activate_deref_window [OF assms] activated_window_def del: deref.simps)
  moreover have "Addr (Suc (Suc ?n)) \<notin> set (addresses (heap s))"
    by (auto simp: addresses_def)
  moreover have "Addr (Suc (Suc ?n)) \<in> set (addresses (heap (my_application_activate cfg app s)))"
    by (simp add: activate_heap [OF assms] addresses_def)
  ultimately show ?thesis
    using activate_new_calls [OF assms, of cfg] activate_created_windows [OF assms, of cfg]
      activate_created_header_bars [OF assms, of cfg] activate_deref_project [OF assms, of cfg]
    by blast
qed

theorem activation_steps_in_order_witness:
  "is_application (heap launched_world) launched_application \<and>
   (\<exists>window header_bar project.
      new_calls launched_world activated_world =
        activation_steps example_config launched_application window header_bar project \<and>
      created_windows launched_world activated_world = [window] \<and>
      created_header_bars launched_world activated_world = [header_bar] \<and>
      gtk_window_get_application (heap activated_world) window = launched_application \<and>
      project \<notin> set (addresses (heap launched_world)) \<and>
      project \<in> set (addresses (heap activated_world)) \<and>
      deref (heap activated_world) project = None)"
  unfolding activated_world_def
  using launched_is_application
    activation_steps_in_order [OF launched_is_application, of example_config]
  by (rule conjI)

text \<open>
  C3. After the handler has run, the title of the window it created is the literal
  "FruitNinja".
\<close>

theorem window_title_is_FruitNinja:
  assumes "is_application (heap s) app"
  shows "map (gtk_window_get_title (heap (my_application_activate cfg app s)))
           (created_windows s (my_application_activate cfg app s)) = [Some ''FruitNinja'']"
  unfolding gtk_window_get_title_def
  by (simp add: activate_created_windows [OF assms] activate_deref_window [OF assms]
      activated_window_def del: deref.simps)

theorem window_title_is_FruitNinja_witness:
  "is_application (heap launched_world) launched_application \<and>
   map (gtk_window_get_title (heap activated_world))
     (created_windows launched_world activated_world) = [Some ''FruitNinja'']"
  unfolding activated_world_def
  using launched_is_application
    window_title_is_FruitNinja [OF launched_is_application, of example_config]
  by (rule conjI)

text \<open>
  C4. After the handler has run, the default size of the window it created is 1280 by
  720, and the handler set it before it showed the window.
\<close>

theorem window_default_size:
  assumes "is_application (heap s) app"
  shows "\<exists>window.
           created_windows s (my_application_activate cfg app s) = [window] \<and>
           gtk_window_get_default_size (heap (my_application_activate cfg app s)) window =
             Some (1280, 720) \<and>
           precedes (Call_gtk_window_set_default_size window 1280 720)
             (Call_gtk_widget_show window) (new_calls s (my_application_activate cfg app s))"
proof -
  let ?n = "length (heap s)"
  have "gtk_window_get_default_size (heap (my_application_activate cfg app s)) (Addr ?n) =
      Some (1280, 720)"
    unfolding gtk_window_get_default_size_def
    by (simp add: activate_deref_window [OF assms] activated_window_def del: deref.simps)
  moreover have "precedes (Call_gtk_window_set_default_size (Addr ?n) 1280 720)
      (Call_gtk_widget_show (Addr ?n)) (new_calls s (my_application_activate cfg app s))"
    by (simp add: activate_new_calls [OF assms] activation_steps_def precedes_def)
  ultimately show ?thesis
    using activate_created_windows [OF assms, of cfg] by blast
qed

theorem window_default_size_witness:
  "is_application (heap launched_world) launched_application \<and>
   (\<exists>window.
      created_windows launched_world activated_world = [window] \<and>
      gtk_window_get_default_size (heap activated_world) window = Some (1280, 720) \<and>
      precedes (Call_gtk_window_set_default_size window 1280 720)
        (Call_gtk_widget_show window) (new_calls launched_world activated_world))"
  unfolding activated_world_def
  using launched_is_application window_default_size [OF launched_is_application, of example_config]
  by (rule conjI)

text \<open>
  C5. The claim is that after the handler has run the titlebar of the window is a header
  bar whose title is \<open>APPLICATION_NAME\<close> and whose title buttons are on. The handler gives
  the header bar that title, but its later call of \<open>gtk_window_set_title\<close> retitles the
  installed header bar. On a launch of a build whose \<open>APPLICATION_NAME\<close> is "fruit_ninja",
  the titlebar of the created window (address 1) is the header bar at address 2 with its
  title buttons on, and its title on return is "FruitNinja", not \<open>APPLICATION_NAME\<close>.
\<close>

theorem header_bar_title_overwritten_on_launch:
  "created_windows launched_world activated_world = [Addr 1] \<and>
   gtk_window_get_titlebar (heap activated_world) (Addr 1) = Addr 2 \<and>
   is_header_bar (heap activated_world) (Addr 2) \<and>
   gtk_header_bar_get_show_title_buttons (heap activated_world) (Addr 2) \<and>
   Call_gtk_header_bar_set_title (Addr 2) (APPLICATION_NAME example_config) \<in>
     set (new_calls launched_world activated_world) \<and>
   gtk_header_bar_get_title (heap activated_world) (Addr 2) = Some ''FruitNinja'' \<and>
   gtk_header_bar_get_title (heap activated_world) (Addr 2) \<noteq>
     Some (APPLICATION_NAME example_config)"
proof -
  have w: "deref (heap activated_world) (Addr 1) = Some (activated_window (Addr 0) 1)"
    using activate_deref_window [OF launched_is_application, of example_config]
    by (simp add: activated_world_def launched_length launched_app del: deref.simps)
  have b: "deref (heap activated_world) (Addr 2) = Some (activated_header_bar 1)"
    using activate_deref_header_bar [OF launched_is_application, of example_config]
    by (simp add: activated_world_def launched_length eval_nat_numeral del: deref.simps)
  have "created_windows launched_world activated_world = [Addr 1]"
    using activate_created_windows [OF launched_is_application, of example_config]
    by (simp add: activated_world_def launched_length)
  moreover have "gtk_window_get_titlebar (heap activated_world) (Addr 1) = Addr 2"
    using w unfolding gtk_window_get_titlebar_def
    by (simp add: activated_window_def eval_nat_numeral del: deref.simps)
  moreover have "is_header_bar (heap activated_world) (Addr 2)"
    unfolding is_header_bar_def by (simp add: b activated_header_bar_def del: deref.simps)
  moreover have "gtk_header_bar_get_show_title_buttons (heap activated_world) (Addr 2)"
    unfolding gtk_header_bar_get_show_title_buttons_def
    by (simp add: b activated_header_bar_def del: deref.simps)
  moreover have "Call_gtk_header_bar_set_title (Addr 2) (APPLICATION_NAME example_config) \<in>
      set (new_calls launched_world activated_world)"
    using activate_new_calls [OF launched_is_application, of example_config]
    by (simp add: activated_world_def launched_length activation_steps_def eval_nat_numeral)
  moreover have t: "gtk_header_bar_get_title (heap activated_world) (Addr 2) = Some ''FruitNinja''"
    unfolding gtk_header_bar_get_title_def
    by (simp add: b activated_header_bar_def del: deref.simps)
  moreover have "gtk_header_bar_get_title (heap activated_world) (Addr 2) \<noteq>
      Some (APPLICATION_NAME example_config)"
    by (simp add: t example_config_def)
  ultimately show ?thesis by blast
qed

text \<open>
  C7. An invocation of the handler creates exactly one top-level window: the windows of
  the heap afterwards are those before and one more, and the log has one window
  constructor call, which returned that window.
\<close>

theorem exactly_one_window_created:
  assumes "is_application (heap s) app"
  shows "length (created_windows s (my_application_activate cfg app s)) = 1 \<and>
         windows (heap (my_application_activate cfg app s)) =
           windows (heap s) @ created_windows s (my_application_activate cfg app s) \<and>
         created_by_window_new (new_calls s (my_application_activate cfg app s)) =
           created_windows s (my_application_activate cfg app s)"
  by (simp add: activate_created_windows [OF assms] activate_windows [OF assms]
      activate_new_calls [OF assms] activation_steps_def)

theorem exactly_one_window_created_witness:
  "is_application (heap launched_world) launched_application \<and>
   length (created_windows launched_world activated_world) = 1 \<and>
   windows (heap activated_world) =
     windows (heap launched_world) @ created_windows launched_world activated_world \<and>
   created_by_window_new (new_calls launched_world activated_world) =
     created_windows launched_world activated_world"
  unfolding activated_world_def
  using launched_is_application
    exactly_one_window_created [OF launched_is_application, of example_config]
  by (rule conjI)

text \<open>
  C8. When the handler returns, the window it created has been shown: the handler called
  \<open>gtk_widget_show\<close> on it and the window is visible in the world it leaves behind.
\<close>

theorem window_shown_before_return:
  assumes "is_application (heap s) app"
  shows "\<exists>window.
           created_windows s (my_application_activate cfg app s) = [window] \<and>
           Call_gtk_widget_show window \<in> set (new_calls s (my_application_activate cfg app s)) \<and>
           gtk_widget_get_visible (heap (my_application_activate cfg app s)) window"
proof -
  let ?n = "length (heap s)"
  have "gtk_widget_get_visible (heap (my_application_activate cfg app s)) (Addr ?n)"
    unfolding gtk_widget_get_visible_def
    by (simp add: activate_deref_window [OF assms] activated_window_def del: deref.simps)
  moreover have "Call_gtk_widget_show (Addr ?n) \<in>
      set (new_calls s (my_application_activate cfg app s))"
    by (simp add: activate_new_calls [OF assms] activation_steps_def)
  ultimately show ?thesis
    using activate_created_windows [OF assms, of cfg] by blast
qed

theorem window_shown_before_return_witness:
  "is_application (heap launched_world) launched_application \<and>
   (\<exists>window.
      created_windows launched_world activated_world = [window] \<and>
      Call_gtk_widget_show window \<in> set (new_calls launched_world activated_world) \<and>
      gtk_widget_get_visible (heap activated_world) window)"
  unfolding activated_world_def
  using launched_is_application
    window_shown_before_return [OF launched_is_application, of example_config]
  by (rule conjI)

text \<open>
  C9. The descriptor does not outlive the handler, whatever the handler is called with:
  the invocation acquires one descriptor, at an address allocated during the invocation;
  the handler's last call releases it; on return its cell is finalised, and the live
  descriptors of the heap are those there were before.
\<close>

theorem project_released_on_exit:
  "\<exists>project.
     acquired_projects (new_calls s (my_application_activate cfg app s)) = [project] \<and>
     project \<notin> set (addresses (heap s)) \<and>
     project \<in> set (addresses (heap (my_application_activate cfg app s))) \<and>
     last (calls (my_application_activate cfg app s)) = Call_g_object_unref project \<and>
     deref (heap (my_application_activate cfg app s)) project = None \<and>
     dart_projects (heap (my_application_activate cfg app s)) = dart_projects (heap s)"
proof (cases "is_application (heap s) app")
  case True
  let ?p = "Addr (Suc (Suc (length (heap s))))"
  note w = activate_valid [OF True, of cfg]
  have "acquired_projects (new_calls s (my_application_activate cfg app s)) = [?p]"
    by (simp add: w new_calls_def activation_steps_def)
  moreover have "?p \<notin> set (addresses (heap s))"
    by (auto simp: addresses_def)
  moreover have "?p \<in> set (addresses (heap (my_application_activate cfg app s)))"
    by (simp add: w addresses_def)
  moreover have "last (calls (my_application_activate cfg app s)) = Call_g_object_unref ?p"
    by (simp add: w activation_steps_def)
  moreover have "deref (heap (my_application_activate cfg app s)) ?p = None"
    by (simp add: w nth_append)
  moreover have "dart_projects (heap (my_application_activate cfg app s)) =
      dart_projects (heap s)"
    by (simp add: w dart_projects_append is_dart_project_def nth_append
        activated_window_def activated_header_bar_def)
  ultimately show ?thesis by blast
next
  case False
  let ?p = "Addr (Suc (length (heap s)))"
  note w = activate_invalid [OF False, of cfg]
  have "acquired_projects (new_calls s (my_application_activate cfg app s)) = [?p]"
    by (simp add: w new_calls_def)
  moreover have "?p \<notin> set (addresses (heap s))"
    by (auto simp: addresses_def)
  moreover have "?p \<in> set (addresses (heap (my_application_activate cfg app s)))"
    by (simp add: w addresses_def)
  moreover have "last (calls (my_application_activate cfg app s)) = Call_g_object_unref ?p"
    by (simp add: w)
  moreover have "deref (heap (my_application_activate cfg app s)) ?p = None"
    by (simp add: w nth_append)
  moreover have "dart_projects (heap (my_application_activate cfg app s)) =
      dart_projects (heap s)"
    by (simp add: w dart_projects_append is_dart_project_def nth_append
        uninstalled_header_bar_def)
  ultimately show ?thesis by blast
qed

text \<open>
  C10. Two invocations on the same application each construct a window and a header bar
  of their own: the second's are not the first's, both windows are in the heap afterwards,
  each with its own header bar as titlebar, and the second invocation leaves the first
  window as it was.
\<close>

theorem second_activation_creates_second_window:
  assumes "is_application (heap s) app"
  shows "(let s1 = my_application_activate cfg app s;
              s2 = my_application_activate cfg app s1
          in \<exists>window1 header_bar1 window2 header_bar2.
               created_windows s s1 = [window1] \<and>
               created_header_bars s s1 = [header_bar1] \<and>
               created_windows s1 s2 = [window2] \<and>
               created_header_bars s1 s2 = [header_bar2] \<and>
               window1 \<noteq> window2 \<and> header_bar1 \<noteq> header_bar2 \<and>
               windows (heap s2) = windows (heap s) @ [window1, window2] \<and>
               header_bars (heap s2) = header_bars (heap s) @ [header_bar1, header_bar2] \<and>
               gtk_window_get_titlebar (heap s2) window1 = header_bar1 \<and>
               gtk_window_get_titlebar (heap s2) window2 = header_bar2 \<and>
               deref (heap s2) window1 = deref (heap s1) window1)"
proof -
  define s1 where "s1 = my_application_activate cfg app s"
  define s2 where "s2 = my_application_activate cfg app s1"
  let ?n = "length (heap s)"
  have live1: "is_application (heap s1) app"
    unfolding s1_def by (rule activate_keeps_application [OF assms])
  have len1: "length (heap s1) = ?n + 3"
    unfolding s1_def by (simp add: activate_heap [OF assms])
  have w1: "created_windows s s1 = [Addr ?n]"
    unfolding s1_def by (rule activate_created_windows [OF assms])
  have b1: "created_header_bars s s1 = [Addr (Suc ?n)]"
    unfolding s1_def by (rule activate_created_header_bars [OF assms])
  have w2: "created_windows s1 s2 = [Addr (?n + 3)]"
    unfolding s2_def using activate_created_windows [OF live1, of cfg] by (simp add: len1)
  have b2: "created_header_bars s1 s2 = [Addr (Suc (?n + 3))]"
    unfolding s2_def using activate_created_header_bars [OF live1, of cfg] by (simp add: len1)
  have ws: "windows (heap s2) = windows (heap s) @ [Addr ?n, Addr (?n + 3)]"
    unfolding s2_def using activate_windows [OF live1, of cfg] activate_windows [OF assms, of cfg]
    by (simp add: len1 s1_def [symmetric])
  have bs: "header_bars (heap s2) = header_bars (heap s) @ [Addr (Suc ?n), Addr (Suc (?n + 3))]"
    unfolding s2_def
    using activate_header_bars [OF live1, of cfg] activate_header_bars [OF assms, of cfg]
    by (simp add: len1 s1_def [symmetric])
  have keep: "deref (heap s2) (Addr ?n) = deref (heap s1) (Addr ?n)"
    unfolding s2_def by (rule activate_deref_old) (simp add: len1)
  have "deref (heap s1) (Addr ?n) = Some (activated_window app ?n)"
    unfolding s1_def by (rule activate_deref_window [OF assms])
  with keep have t1: "gtk_window_get_titlebar (heap s2) (Addr ?n) = Addr (Suc ?n)"
    unfolding gtk_window_get_titlebar_def by (simp add: activated_window_def del: deref.simps)
  have "deref (heap s2) (Addr (length (heap s1))) = Some (activated_window app (length (heap s1)))"
    unfolding s2_def by (rule activate_deref_window [OF live1])
  then have t2: "gtk_window_get_titlebar (heap s2) (Addr (?n + 3)) = Addr (Suc (?n + 3))"
    unfolding gtk_window_get_titlebar_def
    by (simp add: len1 activated_window_def del: deref.simps)
  have "Addr ?n \<noteq> Addr (?n + 3)" "Addr (Suc ?n) \<noteq> Addr (Suc (?n + 3))"
    by simp_all
  with w1 b1 w2 b2 ws bs t1 t2 keep
  have "\<exists>window1 header_bar1 window2 header_bar2.
               created_windows s s1 = [window1] \<and>
               created_header_bars s s1 = [header_bar1] \<and>
               created_windows s1 s2 = [window2] \<and>
               created_header_bars s1 s2 = [header_bar2] \<and>
               window1 \<noteq> window2 \<and> header_bar1 \<noteq> header_bar2 \<and>
               windows (heap s2) = windows (heap s) @ [window1, window2] \<and>
               header_bars (heap s2) = header_bars (heap s) @ [header_bar1, header_bar2] \<and>
               gtk_window_get_titlebar (heap s2) window1 = header_bar1 \<and>
               gtk_window_get_titlebar (heap s2) window2 = header_bar2 \<and>
               deref (heap s2) window1 = deref (heap s1) window1"
    by blast
  then show ?thesis
    unfolding Let_def s1_def s2_def .
qed

theorem second_activation_creates_second_window_witness:
  "is_application (heap launched_world) launched_application \<and>
   (\<exists>window1 header_bar1 window2 header_bar2.
      created_windows launched_world activated_world = [window1] \<and>
      created_header_bars launched_world activated_world = [header_bar1] \<and>
      created_windows activated_world activated_twice_world = [window2] \<and>
      created_header_bars activated_world activated_twice_world = [header_bar2] \<and>
      window1 \<noteq> window2 \<and> header_bar1 \<noteq> header_bar2 \<and>
      windows (heap activated_twice_world) =
        windows (heap launched_world) @ [window1, window2] \<and>
      header_bars (heap activated_twice_world) =
        header_bars (heap launched_world) @ [header_bar1, header_bar2] \<and>
      gtk_window_get_titlebar (heap activated_twice_world) window1 = header_bar1 \<and>
      gtk_window_get_titlebar (heap activated_twice_world) window2 = header_bar2 \<and>
      deref (heap activated_twice_world) window1 = deref (heap activated_world) window1)"
  unfolding activated_twice_world_def activated_world_def
  using launched_is_application
    second_activation_creates_second_window [OF launched_is_application, of example_config]
  unfolding Let_def
  by (rule conjI)

end
